theory Spec2Isabelle
  imports Complex_Main "HOL-Library.AList"
begin

section \<open>Data model (src/models/core.py)\<close>

text \<open>
  The enums of the source are datatypes. A Python \<open>datetime\<close> is the number of
  microseconds since the epoch (its resolution), an \<open>int\<close>; the expression
  \<open>(a - b).total_seconds() / 60\<close> of the source is \<open>minutes_between a b\<close>.
  Python floats and \<open>Decimal\<close> amounts are read as real numbers: rounding is not
  modelled. Of each pydantic model the fields that the gateway and the router read or write
  are kept; fields that several classes share (\<open>id\<close>, \<open>provider_id\<close>,
  \<open>service_type\<close>) carry the class name as a prefix.
\<close>

datatype service_type = RIDESHARE | DELIVERY | COURIER | FREIGHT | GIG_WORK

datatype job_status = PENDING | ASSIGNED | IN_PROGRESS | COMPLETED | CANCELLED | FAILED

datatype priority = LOW | NORMAL | HIGH | URGENT

type_synonym datetime = int

definition minutes_between :: "datetime \<Rightarrow> datetime \<Rightarrow> real" where
  "minutes_between a b = real_of_int (a - b) / 1000000 / 60"

definition minutes :: "int \<Rightarrow> int" where
  "minutes n = n * 60000000"

record location =
  latitude :: real
  longitude :: real

record vehicle =
  vehicle_type :: string

record worker =
  worker_id :: string
  worker_name :: string
  rating :: "real option"
  worker_vehicle :: "vehicle option"
  current_location :: "location option"
  is_available :: bool
  worker_provider_id :: string

record quote =
  quote_provider_id :: string
  quote_service_type :: service_type
  estimated_cost :: real
  estimated_pickup_time :: datetime
  estimated_delivery_time :: datetime
  estimated_duration_minutes :: int
  worker_info :: "worker option"
  expires_at :: datetime
  quote_id :: string
  confidence_score :: real

record movement_request =
  service_type :: service_type
  pickup_location :: location
  dropoff_location :: location
  requested_pickup_time :: "datetime option"
  priority :: priority

record job =
  job_id :: string
  job_service_type :: service_type
  status :: job_status
  job_provider_id :: "string option"
  created_at :: datetime
  updated_at :: datetime

record job_update =
  update_job_id :: string
  update_status :: job_status

record movement_response =
  request_id :: string
  quotes :: "quote list"
  recommended_quote_id :: "string option"

text \<open>
  What a call can raise. The four \<open>ValueError\<close>s of the gateway are told apart by
  their message: \<open>QuoteNotFound\<close> is "Quote ... not found or expired",
  \<open>QuoteExpired\<close> is "Quote ... has expired", \<open>ProviderNotAvailable\<close> is
  "Provider ... not available", \<open>JobNotFound\<close> is "Job ... not found";
  \<open>WeightsMustSumToOne\<close> is the router's "Weights must sum to 1.0".
  \<open>ProviderException\<close> is any exception raised inside a provider adapter, and
  \<open>KeyError\<close> is Python's own, raised by \<open>d[k]\<close> and \<open>del d[k]\<close> on a
  missing key.
\<close>

datatype error =
    QuoteNotFound
  | QuoteExpired
  | ProviderNotAvailable
  | JobNotFound
  | WeightsMustSumToOne
  | ProviderException string
  | KeyError string

section \<open>Provider adapters (src/adapters/base.py)\<close>

text \<open>
  \<open>ProviderAdapter\<close> is an abstract class; an adapter is the record of its
  declared facts and of what each of its coroutines answers: a value, or the exception
  it raises (\<open>Inl\<close>).
\<close>

record provider =
  provider_id :: string
  supported_service_types :: "service_type list"
  coverage_areas :: "string list"
  provider_get_quote :: "movement_request \<Rightarrow> error + quote option"
  provider_create_job :: "string \<Rightarrow> movement_request \<Rightarrow> error + job"
  provider_get_job_status :: "string \<Rightarrow> error + job_update"
  provider_cancel_job :: "string \<Rightarrow> error + bool"
  provider_get_available_workers :: "location \<Rightarrow> real \<Rightarrow> error + worker list"
  provider_health_check :: "error + bool"

section \<open>The routing engine (src/core/router.py)\<close>

text \<open>
  A Python dict whose order or whose values are read as a whole is an association list
  with distinct keys, written by \<open>AList.update\<close> (a present key keeps its place,
  a new key goes last) and read by \<open>map_of\<close>.
\<close>

record route_optimizer =
  router_providers :: "provider list"
  weights :: "(string \<times> real) list"

definition default_weights :: "(string \<times> real) list" where
  "default_weights = [(''cost'', 0.3), (''time'', 0.4), (''reliability'', 0.2), (''quality'', 0.1)]"

definition route_optimizer_init :: "provider list \<Rightarrow> route_optimizer" where
  "route_optimizer_init ps = \<lparr>router_providers = ps, weights = default_weights\<rparr>"

text \<open>\<open>_normalize_cost_score\<close>, router.py lines 141-154.\<close>

definition normalize_cost_score :: "real \<Rightarrow> real" where
  "normalize_cost_score cost =
     (let max_reasonable_cost = 100; min_reasonable_cost = 5 in
      if cost \<le> min_reasonable_cost then 1
      else if cost \<ge> max_reasonable_cost then 0.1
      else (let normalized = 1 - (cost - min_reasonable_cost) / (max_reasonable_cost - min_reasonable_cost)
            in max 0.1 normalized))"

text \<open>
  \<open>_normalize_time_score\<close>, router.py lines 156-185. The reading of the clock
  (\<open>datetime.utcnow()\<close>) is the argument \<open>now\<close>.
\<close>

definition normalize_time_score :: "datetime \<Rightarrow> datetime \<Rightarrow> datetime \<Rightarrow> datetime option \<Rightarrow> real" where
  "normalize_time_score now pickup_time delivery_time requested_pickup =
     (let pickup_delay_minutes = minutes_between pickup_time now;
          total_duration_minutes = minutes_between delivery_time pickup_time;
          pickup_score =
            (case requested_pickup of
               Some requested \<Rightarrow>
                 (let pickup_diff = \<bar>minutes_between pickup_time requested\<bar>
                  in max 0 (1 - pickup_diff / 60))
             | None \<Rightarrow> max 0.1 (1 - pickup_delay_minutes / 60));
          max_reasonable_duration = 120;
          duration_score = max 0.1 (1 - total_duration_minutes / max_reasonable_duration)
      in (pickup_score + duration_score) / 2)"

text \<open>
  \<open>_calculate_quality_score\<close>, router.py lines 187-197. The test
  \<open>quote.worker_info and quote.worker_info.rating\<close> is Python truthiness: a rating
  of \<open>None\<close> or \<open>0.0\<close> is false.
\<close>

definition calculate_quality_score :: "quote \<Rightarrow> real" where
  "calculate_quality_score q =
     (let base_score = 0.7 in
      case worker_info q of
        None \<Rightarrow> base_score
      | Some w \<Rightarrow>
          (case rating w of
             None \<Rightarrow> base_score
           | Some r \<Rightarrow> if r \<noteq> 0 then r / 5 else base_score))"

text \<open>\<open>_get_priority_adjustment\<close>, router.py lines 199-222.\<close>

definition get_priority_adjustment :: "datetime \<Rightarrow> priority \<Rightarrow> quote \<Rightarrow> real" where
  "get_priority_adjustment now prio q =
     (if prio = URGENT then
        (let pickup_delay = minutes_between (estimated_pickup_time q) now in
         if pickup_delay \<le> 10 then 1.3
         else if pickup_delay \<le> 20 then 1.1
         else 0.7)
      else if prio = HIGH then 1 + (confidence_score q - 0.5) * 0.2
      else if prio = LOW then 1
      else 1)"

text \<open>
  \<open>_calculate_quote_score\<close>, router.py lines 102-139. \<open>self.weights[k]\<close> raises
  \<open>KeyError\<close> on a missing key. The two clock readings of one scoring call (one in
  the time score, one in the priority adjustment) are the one instant \<open>now\<close>.
\<close>

definition weight :: "(string \<times> real) list \<Rightarrow> string \<Rightarrow> error + real" where
  "weight w k = (case map_of w k of None \<Rightarrow> Inl (KeyError k) | Some v \<Rightarrow> Inr v)"

definition calculate_quote_score ::
  "(string \<times> real) list \<Rightarrow> datetime \<Rightarrow> quote \<Rightarrow> movement_request \<Rightarrow> error + real" where
  "calculate_quote_score w now q request =
     (let cost_score = normalize_cost_score (estimated_cost q);
          time_score = normalize_time_score now (estimated_pickup_time q)
                         (estimated_delivery_time q) (requested_pickup_time request);
          reliability_score = confidence_score q;
          quality_score = calculate_quality_score q;
          priority_adjustment = get_priority_adjustment now (priority request) q
      in case weight w ''cost'' of Inl e \<Rightarrow> Inl e | Inr w_cost \<Rightarrow>
         (case weight w ''time'' of Inl e \<Rightarrow> Inl e | Inr w_time \<Rightarrow>
         (case weight w ''reliability'' of Inl e \<Rightarrow> Inl e | Inr w_reliability \<Rightarrow>
         (case weight w ''quality'' of Inl e \<Rightarrow> Inl e | Inr w_quality \<Rightarrow>
            Inr ((w_cost * cost_score + w_time * time_score
                  + w_reliability * reliability_score + w_quality * quality_score)
                 * priority_adjustment)))))"

text \<open>\<open>_filter_suitable_providers\<close>, router.py lines 70-85.\<close>

definition filter_suitable_providers :: "provider list \<Rightarrow> movement_request \<Rightarrow> provider list" where
  "filter_suitable_providers ps request =
     filter (\<lambda>p. service_type request \<in> set (supported_service_types p)
                 \<and> (''global'' \<in> set (coverage_areas p) \<or> ''local'' \<in> set (coverage_areas p))) ps"

text \<open>
  \<open>_get_provider_quote\<close>, router.py lines 87-100: the \<open>except Exception\<close>
  turns an adapter's exception into \<open>None\<close>.
\<close>

definition get_provider_quote :: "provider \<Rightarrow> movement_request \<Rightarrow> quote option" where
  "get_provider_quote p request =
     (case provider_get_quote p request of Inl e \<Rightarrow> None | Inr q \<Rightarrow> q)"

text \<open>
  The list comprehension of router.py lines 59-62: the first score that raises ends it.
\<close>

fun score_quotes ::
  "(string \<times> real) list \<Rightarrow> datetime \<Rightarrow> movement_request \<Rightarrow> quote list \<Rightarrow> error + (quote \<times> real) list" where
  "score_quotes w now request [] = Inr []"
| "score_quotes w now request (q # qs) =
     (case calculate_quote_score w now q request of
        Inl e \<Rightarrow> Inl e
      | Inr s \<Rightarrow>
          (case score_quotes w now request qs of
             Inl e \<Rightarrow> Inl e
           | Inr rest \<Rightarrow> Inr ((q, s) # rest)))"

text \<open>
  Lines 58-68 of \<open>get_optimal_quotes\<close>: score, sort by score with
  \<open>reverse=True\<close>, keep the first \<open>max_quotes\<close>. Python's sort is stable also
  when reversed (quotes of equal score keep their order), as is \<open>sort_key\<close> on the
  negated score. \<open>max_quotes\<close> is a natural number: the source only passes 5.
\<close>

definition rank_quotes ::
  "(string \<times> real) list \<Rightarrow> datetime \<Rightarrow> movement_request \<Rightarrow> nat \<Rightarrow> quote list \<Rightarrow> error + quote list" where
  "rank_quotes w now request max_quotes valid_quotes =
     (case score_quotes w now request valid_quotes of
        Inl e \<Rightarrow> Inl e
      | Inr scored_quotes \<Rightarrow>
          Inr (map fst (take max_quotes (sort_key (\<lambda>x. - snd x) scored_quotes))))"

text \<open>
  \<open>get_optimal_quotes\<close>, router.py lines 26-68. \<open>asyncio.gather\<close> keeps the
  order of its tasks in its results.
\<close>

definition get_optimal_quotes ::
  "route_optimizer \<Rightarrow> datetime \<Rightarrow> movement_request \<Rightarrow> nat \<Rightarrow> error + quote list" where
  "get_optimal_quotes r now request max_quotes =
     (let suitable_providers = filter_suitable_providers (router_providers r) request in
      if suitable_providers = [] then Inr []
      else
        (let quote_results = map (\<lambda>p. get_provider_quote p request) suitable_providers;
             valid_quotes = List.map_filter (\<lambda>x. x) quote_results
         in if valid_quotes = [] then Inr []
            else rank_quotes (weights r) now request max_quotes valid_quotes))"

text \<open>
  \<open>update_weights\<close>, router.py lines 263-270. \<open>new_weights\<close> is the list of the
  argument's items; \<open>dict.update\<close> writes them one by one. A raise leaves the
  optimizer as it was.
\<close>

definition update_weights ::
  "route_optimizer \<Rightarrow> (string \<times> real) list \<Rightarrow> (error + unit) \<times> route_optimizer" where
  "update_weights r new_weights =
     (let total_weight = sum_list (map snd new_weights) in
      if \<bar>total_weight - 1\<bar> > 0.01 then (Inl WeightsMustSumToOne, r)
      else (Inr (), r\<lparr>weights := fold (\<lambda>(k, v) d. AList.update k v d) new_weights (weights r)\<rparr>))"

text \<open>
  \<open>get_provider_health_status\<close>, router.py lines 272-283: the dict comprehension
  writes one entry per provider, in order; a result that is not a \<open>bool\<close> (an
  exception) is \<open>False\<close>.
\<close>

definition health_result :: "provider \<Rightarrow> bool" where
  "health_result p = (case provider_health_check p of Inl e \<Rightarrow> False | Inr b \<Rightarrow> b)"

definition get_provider_health_status :: "route_optimizer \<Rightarrow> (string \<times> bool) list" where
  "get_provider_health_status r =
     fold (\<lambda>p d. AList.update (provider_id p) (health_result p) d) (router_providers r) []"

section \<open>The gateway (src/core/gateway.py)\<close>

text \<open>
  The state of a \<open>TesseractsGateway\<close>. \<open>providers\<close> is the dict of line 20,
  in insertion order; \<open>active_jobs\<close> and \<open>active_quotes\<close> are read and written
  by key only, and are maps. Every operation takes the state and gives back its result,
  a value or the exception raised, with the state it leaves.
\<close>

record gateway =
  providers :: "(string \<times> provider) list"
  router :: route_optimizer
  active_jobs :: "string \<rightharpoonup> job"
  active_quotes :: "string \<rightharpoonup> quote"

definition gateway_init :: "provider list \<Rightarrow> gateway" where
  "gateway_init ps =
     \<lparr>providers = fold (\<lambda>p d. AList.update (provider_id p) p d) ps [],
      router = route_optimizer_init ps,
      active_jobs = Map.empty,
      active_quotes = Map.empty\<rparr>"

text \<open>
  \<open>request_movement\<close>, gateway.py lines 25-50. The fresh \<open>uuid4\<close> of line 36 is
  the argument \<open>rid\<close>.
\<close>

definition request_movement ::
  "datetime \<Rightarrow> string \<Rightarrow> gateway \<Rightarrow> movement_request \<Rightarrow> (error + movement_response) \<times> gateway" where
  "request_movement now rid g request =
     (case get_optimal_quotes (router g) now request 5 of
        Inl e \<Rightarrow> (Inl e, g)
      | Inr qs \<Rightarrow>
          (Inr \<lparr>request_id = rid, quotes = qs,
                recommended_quote_id = (case qs of [] \<Rightarrow> None | q # _ \<Rightarrow> Some (quote_id q))\<rparr>,
           g\<lparr>active_quotes := fold (\<lambda>q m. m(quote_id q \<mapsto> q)) qs (active_quotes g)\<rparr>))"

text \<open>
  \<open>accept_quote\<close>, gateway.py lines 52-79, in the two parts that its only
  \<open>await\<close> (line 70) separates. \<open>accept_quote_check\<close> is lines 55-67: it reads
  the state and changes nothing. \<open>accept_quote_finish\<close> is lines 73-79, run with
  the job the provider answered: line 73 writes the job, line 76 is \<open>del\<close>, which
  raises \<open>KeyError\<close> when the key is gone. \<open>accept_quote\<close> is one call run
  from start to end with nothing in between.
\<close>

definition accept_quote_check :: "datetime \<Rightarrow> gateway \<Rightarrow> string \<Rightarrow> error + quote \<times> provider" where
  "accept_quote_check now g qid =
     (case active_quotes g qid of
        None \<Rightarrow> Inl QuoteNotFound
      | Some q \<Rightarrow>
          if now > expires_at q then Inl QuoteExpired
          else (case map_of (providers g) (quote_provider_id q) of
                  None \<Rightarrow> Inl ProviderNotAvailable
                | Some p \<Rightarrow> Inr (q, p)))"

definition accept_quote_finish :: "gateway \<Rightarrow> string \<Rightarrow> job \<Rightarrow> (error + job) \<times> gateway" where
  "accept_quote_finish g qid j =
     (let g1 = g\<lparr>active_jobs := (active_jobs g)(job_id j \<mapsto> j)\<rparr> in
      case active_quotes g1 qid of
        None \<Rightarrow> (Inl (KeyError qid), g1)
      | Some q \<Rightarrow> (Inr j, g1\<lparr>active_quotes := (active_quotes g1)(qid := None)\<rparr>))"

definition accept_quote ::
  "datetime \<Rightarrow> gateway \<Rightarrow> string \<Rightarrow> movement_request \<Rightarrow> (error + job) \<times> gateway" where
  "accept_quote now g qid request =
     (case accept_quote_check now g qid of
        Inl e \<Rightarrow> (Inl e, g)
      | Inr (q, p) \<Rightarrow>
          (case provider_create_job p qid request of
             Inl e \<Rightarrow> (Inl e, g)
           | Inr j \<Rightarrow> accept_quote_finish g qid j))"

text \<open>
  The provider of a job, lines 88 and 110: \<open>self.providers.get(job.provider_id)\<close>,
  which is \<open>None\<close> also when the job has no provider id.
\<close>

definition job_provider :: "gateway \<Rightarrow> job \<Rightarrow> provider option" where
  "job_provider g j =
     (case job_provider_id j of None \<Rightarrow> None | Some pid \<Rightarrow> map_of (providers g) pid)"

text \<open>
  \<open>get_job_status\<close>, gateway.py lines 81-101. Lines 97-98 write the job object
  held by the registry, here the entry under \<open>jid\<close>.
\<close>

definition get_job_status ::
  "datetime \<Rightarrow> gateway \<Rightarrow> string \<Rightarrow> (error + job_update) \<times> gateway" where
  "get_job_status now g jid =
     (case active_jobs g jid of
        None \<Rightarrow> (Inl JobNotFound, g)
      | Some j \<Rightarrow>
          (case job_provider g j of
             None \<Rightarrow> (Inl ProviderNotAvailable, g)
           | Some p \<Rightarrow>
               (case provider_get_job_status p jid of
                  Inl e \<Rightarrow> (Inl e, g)
                | Inr upd \<Rightarrow>
                    (Inr upd,
                     g\<lparr>active_jobs := (active_jobs g)
                          (jid \<mapsto> j\<lparr>status := update_status upd, updated_at := now\<rparr>)\<rparr>))))"

text \<open>\<open>cancel_job\<close>, gateway.py lines 103-123.\<close>

definition cancel_job :: "datetime \<Rightarrow> gateway \<Rightarrow> string \<Rightarrow> (error + bool) \<times> gateway" where
  "cancel_job now g jid =
     (case active_jobs g jid of
        None \<Rightarrow> (Inl JobNotFound, g)
      | Some j \<Rightarrow>
          (case job_provider g j of
             None \<Rightarrow> (Inl ProviderNotAvailable, g)
           | Some p \<Rightarrow>
               (case provider_cancel_job p jid of
                  Inl e \<Rightarrow> (Inl e, g)
                | Inr success \<Rightarrow>
                    if success then
                      (Inr success,
                       g\<lparr>active_jobs := (active_jobs g)
                            (jid \<mapsto> j\<lparr>status := CANCELLED, updated_at := now\<rparr>)\<rparr>)
                    else (Inr success, g))))"

text \<open>\<open>_calculate_distance\<close>, gateway.py lines 176-180.\<close>

definition calculate_distance :: "location \<Rightarrow> location \<Rightarrow> real" where
  "calculate_distance loc1 loc2 =
     (let lat_diff = \<bar>latitude loc1 - latitude loc2\<bar>;
          lng_diff = \<bar>longitude loc1 - longitude loc2\<bar>
      in sqrt (lat_diff ^ 2 + lng_diff ^ 2) * 111)"

text \<open>
  \<open>get_available_workers\<close>, gateway.py lines 139-174. A row of the answer is the
  dict of lines 165-172.
\<close>

record worker_row =
  row_id :: string
  row_name :: string
  row_rating :: "real option"
  row_vehicle_type :: "string option"
  row_provider :: string
  row_distance_km :: "real option"

definition worker_to_row :: "location \<Rightarrow> worker \<Rightarrow> worker_row" where
  "worker_to_row loc w =
     \<lparr>row_id = worker_id w, row_name = worker_name w, row_rating = rating w,
      row_vehicle_type = map_option vehicle_type (worker_vehicle w),
      row_provider = worker_provider_id w,
      row_distance_km = map_option (calculate_distance loc) (current_location w)\<rparr>"

definition worker_lists :: "(error + worker list) list \<Rightarrow> worker list" where
  "worker_lists worker_results =
     concat (map (\<lambda>result. case result of Inl e \<Rightarrow> [] | Inr ws \<Rightarrow> ws) worker_results)"

definition get_available_workers ::
  "gateway \<Rightarrow> location \<Rightarrow> service_type \<Rightarrow> real \<Rightarrow> worker_row list" where
  "get_available_workers g loc st radius_km =
     (let worker_tasks =
            map (\<lambda>p. provider_get_available_workers p loc radius_km)
              (filter (\<lambda>p. st \<in> set (supported_service_types p)) (map snd (providers g)))
      in if worker_tasks = [] then []
         else map (worker_to_row loc) (worker_lists worker_tasks))"

text \<open>\<open>cleanup_expired_quotes\<close>, gateway.py lines 237-249.\<close>

definition cleanup_expired_quotes :: "datetime \<Rightarrow> gateway \<Rightarrow> gateway" where
  "cleanup_expired_quotes current_time g =
     g\<lparr>active_quotes :=
         (\<lambda>qid. case active_quotes g qid of
                  None \<Rightarrow> None
                | Some q \<Rightarrow> if current_time > expires_at q then None else Some q)\<rparr>"

section \<open>Vocabulary of the properties\<close>

text \<open>
  The constraints that the pydantic fields of a quote carry: \<open>confidence_score\<close> is
  \<open>Field(ge=0, le=1)\<close> (core.py line 131) and a worker's \<open>rating\<close> is
  \<open>Field(None, ge=0, le=5)\<close> (core.py line 50).
\<close>

definition quote_fields_valid :: "quote \<Rightarrow> bool" where
  "quote_fields_valid q =
     (0 \<le> confidence_score q \<and> confidence_score q \<le> 1
      \<and> (case worker_info q of
            None \<Rightarrow> True
          | Some w \<Rightarrow> (case rating w of None \<Rightarrow> True | Some r \<Rightarrow> 0 \<le> r \<and> r \<le> 5)))"

text \<open>The terminal states of a job, and the status the registry holds for a job id.\<close>

definition terminal :: "job_status \<Rightarrow> bool" where
  "terminal s = (s = COMPLETED \<or> s = CANCELLED \<or> s = FAILED)"

definition status_of :: "gateway \<Rightarrow> string \<Rightarrow> job_status option" where
  "status_of g jid = map_option status (active_jobs g jid)"

text \<open>
  Two calls A and B of \<open>accept_quote\<close> on one quote id, run as two asyncio tasks on
  one event loop. A task runs alone until it awaits: A runs lines 55-70 and is suspended
  in the provider's \<open>create_job\<close>, then B runs lines 55-70 and is suspended too.
  Neither has written anything, so both checks read the state \<open>g\<close> and give the
  same answer. Then A is resumed with the provider's answer \<open>job_a\<close> and runs lines
  73-79, and then B with \<open>job_b\<close>.
\<close>

definition accept_quote_interleaved ::
  "datetime \<Rightarrow> gateway \<Rightarrow> string \<Rightarrow> job \<Rightarrow> job \<Rightarrow> ((error + job) \<times> (error + job)) \<times> gateway" where
  "accept_quote_interleaved now g qid job_a job_b =
     (case accept_quote_check now g qid of
        Inl e \<Rightarrow> ((Inl e, Inl e), g)
      | Inr checked \<Rightarrow>
          (let (result_a, g1) = accept_quote_finish g qid job_a;
               (result_b, g2) = accept_quote_finish g1 qid job_b
           in ((result_a, result_b), g2)))"

text \<open>The gateway and the router once the providers that raise on a call are unregistered.\<close>

definition without_quote_failures :: "movement_request \<Rightarrow> route_optimizer \<Rightarrow> route_optimizer" where
  "without_quote_failures request r =
     r\<lparr>router_providers := filter (\<lambda>p. \<not> isl (provider_get_quote p request)) (router_providers r)\<rparr>"

definition without_worker_failures :: "location \<Rightarrow> real \<Rightarrow> gateway \<Rightarrow> gateway" where
  "without_worker_failures loc radius_km g =
     g\<lparr>providers := filter (\<lambda>(k, p). \<not> isl (provider_get_available_workers p loc radius_km))
                        (providers g)\<rparr>"

section \<open>Scenarios\<close>

definition demo_location :: location where
  "demo_location = \<lparr>latitude = 0, longitude = 0\<rparr>"

definition demo_request :: movement_request where
  "demo_request = \<lparr>service_type = DELIVERY, pickup_location = demo_location,
     dropoff_location = demo_location, requested_pickup_time = None, priority = NORMAL\<rparr>"

text \<open>A quote of provider \<open>pid\<close>, issued at time 0 and valid for 20 minutes.\<close>

definition demo_quote :: "string \<Rightarrow> string \<Rightarrow> quote" where
  "demo_quote pid qid = \<lparr>quote_provider_id = pid, quote_service_type = DELIVERY,
     estimated_cost = 24, estimated_pickup_time = minutes 15, estimated_delivery_time = minutes 45,
     estimated_duration_minutes = 30, worker_info = None, expires_at = minutes 20,
     quote_id = qid, confidence_score = 0.9\<rparr>"

definition demo_job :: "string \<Rightarrow> job_status \<Rightarrow> job" where
  "demo_job jid st = \<lparr>job_id = jid, job_service_type = DELIVERY, status = st,
     job_provider_id = Some ''mock'', created_at = 0, updated_at = 0\<rparr>"

text \<open>
  A provider \<open>mock\<close> whose answers to \<open>create_job\<close>, \<open>get_job_status\<close> and
  \<open>cancel_job\<close> are given.
\<close>

definition scripted_provider ::
  "(error + job) \<Rightarrow> (error + job_update) \<Rightarrow> (error + bool) \<Rightarrow> provider" where
  "scripted_provider created reported cancelled =
     \<lparr>provider_id = ''mock'', supported_service_types = [DELIVERY], coverage_areas = [''local''],
      provider_get_quote = (\<lambda>request. Inr (Some (demo_quote ''mock'' ''q1''))),
      provider_create_job = (\<lambda>qid request. created),
      provider_get_job_status = (\<lambda>jid. reported),
      provider_cancel_job = (\<lambda>jid. cancelled),
      provider_get_available_workers = (\<lambda>loc radius_km. Inr []),
      provider_health_check = Inr True\<rparr>"

text \<open>A gateway over one provider, with the jobs \<open>js\<close> registered and the quote \<open>q1\<close> cached.\<close>

definition demo_gateway :: "provider \<Rightarrow> (string \<rightharpoonup> job) \<Rightarrow> gateway" where
  "demo_gateway p js =
     (gateway_init [p])\<lparr>active_jobs := js, active_quotes := [''q1'' \<mapsto> demo_quote ''mock'' ''q1'']\<rparr>"

text \<open>
  A provider \<open>pid\<close> with one worker that either answers every call or raises on
  every call.
\<close>

definition fleet_worker :: "string \<Rightarrow> worker" where
  "fleet_worker pid = \<lparr>worker_id = pid @ ''_w'', worker_name = ''Sam'', rating = Some 4,
     worker_vehicle = Some \<lparr>vehicle_type = ''bike''\<rparr>, current_location = None,
     is_available = True, worker_provider_id = pid\<rparr>"

definition fleet_provider :: "string \<Rightarrow> bool \<Rightarrow> provider" where
  "fleet_provider pid raises =
     \<lparr>provider_id = pid, supported_service_types = [DELIVERY], coverage_areas = [''local''],
      provider_get_quote = (\<lambda>request.
         if raises then Inl (ProviderException ''down'') else Inr (Some (demo_quote pid (pid @ ''_q'')))),
      provider_create_job = (\<lambda>qid request. Inl (ProviderException ''down'')),
      provider_get_job_status = (\<lambda>jid. Inl (ProviderException ''down'')),
      provider_cancel_job = (\<lambda>jid. Inl (ProviderException ''down'')),
      provider_get_available_workers = (\<lambda>loc radius_km.
         if raises then Inl (ProviderException ''down'') else Inr [fleet_worker pid]),
      provider_health_check = (if raises then Inl (ProviderException ''down'') else Inr True)\<rparr>"

definition fleet :: "provider list" where
  "fleet = [fleet_provider ''a'' False, fleet_provider ''b'' True, fleet_provider ''c'' False]"

text \<open>
  Two quotes under urgent priority that differ in their pickup time only: an expensive
  offer of low confidence with a poorly rated worker, for a request that asks for a
  pickup 68 minutes from time 0.
\<close>

definition urgent_worker :: worker where
  "urgent_worker = \<lparr>worker_id = ''w1'', worker_name = ''Sam'', rating = Some 1,
     worker_vehicle = None, current_location = None, is_available = True,
     worker_provider_id = ''mock''\<rparr>"

definition urgent_quote :: "int \<Rightarrow> quote" where
  "urgent_quote pickup_delay = \<lparr>quote_provider_id = ''mock'', quote_service_type = DELIVERY,
     estimated_cost = 150, estimated_pickup_time = minutes pickup_delay,
     estimated_delivery_time = minutes 116,
     estimated_duration_minutes = 91, worker_info = Some urgent_worker, expires_at = minutes 20,
     quote_id = ''q'', confidence_score = 0.05\<rparr>"

definition urgent_request :: "datetime option \<Rightarrow> movement_request" where
  "urgent_request requested = \<lparr>service_type = DELIVERY, pickup_location = demo_location,
     dropoff_location = demo_location, requested_pickup_time = requested, priority = URGENT\<rparr>"

text \<open>
  Providers \<open>mock\<close> for the gateway scenarios: one that creates the job \<open>j_a\<close>,
  one whose \<open>create_job\<close> raises, one that answers with the id \<open>j1\<close> of a job
  the registry already holds, and one that reports \<open>j1\<close> in progress and confirms
  its cancellation.
\<close>

definition creating_provider :: provider where
  "creating_provider =
     scripted_provider (Inr (demo_job ''j_a'' ASSIGNED)) (Inl (ProviderException ''unknown job''))
       (Inr False)"

definition refusing_provider :: provider where
  "refusing_provider =
     scripted_provider (Inl (ProviderException ''refused'')) (Inl (ProviderException ''unknown job''))
       (Inr False)"

definition reusing_provider :: provider where
  "reusing_provider =
     scripted_provider (Inr (demo_job ''j1'' ASSIGNED)) (Inl (ProviderException ''unknown job''))
       (Inr False)"

definition cancelling_provider :: provider where
  "cancelling_provider =
     scripted_provider (Inl (ProviderException ''refused''))
       (Inr \<lparr>update_job_id = ''j1'', update_status = IN_PROGRESS\<rparr>) (Inr True)"

definition completed_jobs :: "string \<rightharpoonup> job" where
  "completed_jobs = [''j1'' \<mapsto> demo_job ''j1'' COMPLETED]"

section \<open>Cost score\<close>

text \<open>
  Claim C6. The cost score is 1 for every cost at or below 5.00, is 0.1 for every cost at
  or above 100.00, and for a cost strictly between the two is the inverted linear
  interpolation \<open>1 - (cost - 5) / (100 - 5)\<close> floored at 0.1, so at least 0.1 and never
  zero.
\<close>

theorem normalize_cost_score_spec:
  "(cost \<le> 5 \<longrightarrow> normalize_cost_score cost = 1)
   \<and> (cost \<ge> 100 \<longrightarrow> normalize_cost_score cost = 0.1)
   \<and> (5 < cost \<and> cost < 100 \<longrightarrow>
        normalize_cost_score cost = max 0.1 (1 - (cost - 5) / (100 - 5))
        \<and> normalize_cost_score cost \<ge> 0.1
        \<and> normalize_cost_score cost \<noteq> 0)"
  by (auto simp: normalize_cost_score_def Let_def max_def)

theorem normalize_cost_score_spec_witness:
  "normalize_cost_score 5 = 1 \<and> normalize_cost_score 3 = 1
   \<and> normalize_cost_score 100 = 0.1 \<and> normalize_cost_score 250 = 0.1
   \<and> normalize_cost_score 24 = 0.8 \<and> normalize_cost_score 24 \<ge> 0.1
   \<and> normalize_cost_score 24 \<noteq> 0"
  using normalize_cost_score_spec [of 5] normalize_cost_score_spec [of 3]
    normalize_cost_score_spec [of 100] normalize_cost_score_spec [of 250]
    normalize_cost_score_spec [of 24]
  by simp

section \<open>Accepting a quote\<close>

lemmas accept_defs = accept_quote_def accept_quote_check_def accept_quote_finish_def

lemmas demo_defs = demo_gateway_def gateway_init_def scripted_provider_def demo_quote_def
  demo_job_def demo_request_def demo_location_def minutes_def

lemma accept_quote_check_Inr:
  "accept_quote_check now g qid = Inr (q, p) \<longleftrightarrow>
     active_quotes g qid = Some q \<and> \<not> now > expires_at q
     \<and> map_of (providers g) (quote_provider_id q) = Some p"
  by (auto simp: accept_quote_check_def split: option.splits)

lemma accept_quote_raise_keeps_state:
  "accept_quote now g qid request = (Inl e, g') \<Longrightarrow> g' = g"
  by (auto simp: accept_defs Let_def split: sum.splits option.splits if_splits prod.splits)

text \<open>
  Run one after the other, two calls on one quote id cannot both succeed: the second
  finds the quote gone.
\<close>

lemma accept_quote_twice_in_sequence:
  "accept_quote now g qid request = (Inr j, g') \<Longrightarrow>
     accept_quote later g' qid request = (Inl QuoteNotFound, g')"
  by (auto simp: accept_defs Let_def split: sum.splits option.splits if_splits prod.splits)

text \<open>
  Interleaved at the \<open>await\<close>, both calls pass the check, the provider creates two
  jobs, and the call resumed second registers its job and then raises \<open>KeyError\<close>
  at line 76.
\<close>

lemma accept_quote_interleaved_results:
  "accept_quote_check now g qid = Inr (q, p) \<Longrightarrow>
     fst (accept_quote_interleaved now g qid job_a job_b) = (Inr job_a, Inl (KeyError qid))
     \<and> active_jobs (snd (accept_quote_interleaved now g qid job_a job_b)) (job_id job_b) = Some job_b"
proof -
  assume c: "accept_quote_check now g qid = Inr (q, p)"
  then have "active_quotes g qid = Some q"
    by (simp add: accept_quote_check_Inr)
  with c show ?thesis
    by (simp add: accept_quote_interleaved_def accept_quote_finish_def Let_def)
qed

text \<open>
  Claim C1 (at-most-once consumption among concurrent calls), evaluated on the code. Two
  calls race on the cached, unexpired quote \<open>q1\<close>, five minutes after it was issued;
  the provider answers the first with job \<open>j_a\<close> and the second with job \<open>j_b\<close>.
  The first call returns its job. The second call does not fail with NotFound or
  Expired: it raises \<open>KeyError\<close>, after its job was created by the provider and
  written to the registry, which then holds both jobs for the one quote.
\<close>

theorem accept_quote_interleaved_double_create:
  "accept_quote_check (minutes 5) (demo_gateway creating_provider Map.empty) ''q1''
     = Inr (demo_quote ''mock'' ''q1'', creating_provider)
   \<and> fst (accept_quote_interleaved (minutes 5) (demo_gateway creating_provider Map.empty) ''q1''
            (demo_job ''j_a'' ASSIGNED) (demo_job ''j_b'' ASSIGNED))
     = (Inr (demo_job ''j_a'' ASSIGNED), Inl (KeyError ''q1''))
   \<and> active_jobs (snd (accept_quote_interleaved (minutes 5)
          (demo_gateway creating_provider Map.empty) ''q1''
          (demo_job ''j_a'' ASSIGNED) (demo_job ''j_b'' ASSIGNED))) ''j_a''
     = Some (demo_job ''j_a'' ASSIGNED)
   \<and> active_jobs (snd (accept_quote_interleaved (minutes 5)
          (demo_gateway creating_provider Map.empty) ''q1''
          (demo_job ''j_a'' ASSIGNED) (demo_job ''j_b'' ASSIGNED))) ''j_b''
     = Some (demo_job ''j_b'' ASSIGNED)"
  by (simp add: accept_quote_interleaved_def accept_defs demo_defs creating_provider_def Let_def)

text \<open>
  Claim C3 as stated (the quote is consumed even when \<open>create_job\<close> raises, so a
  retry fails with NotFound) is false on the code: line 76 deletes the quote only after
  line 70 has returned. Here the provider refuses the job; the gateway is left as it
  was, the quote is still cached, and a retry a minute later does not fail with NotFound.
\<close>

theorem accept_quote_create_job_raises_counterexample:
  "accept_quote (minutes 5) (demo_gateway refusing_provider Map.empty) ''q1'' demo_request
     = (Inl (ProviderException ''refused''), demo_gateway refusing_provider Map.empty)
   \<and> active_quotes (snd (accept_quote (minutes 5) (demo_gateway refusing_provider Map.empty)
          ''q1'' demo_request)) ''q1''
     = Some (demo_quote ''mock'' ''q1'')
   \<and> fst (accept_quote (minutes 6)
            (snd (accept_quote (minutes 5) (demo_gateway refusing_provider Map.empty)
               ''q1'' demo_request))
            ''q1'' demo_request)
     \<noteq> Inl QuoteNotFound"
  by (simp add: accept_defs demo_defs refusing_provider_def)

text \<open>
  Claim C3, amended. When the cached quote has been found and the provider's
  \<open>create_job\<close> raises, \<open>accept_quote\<close> raises the provider's exception and leaves
  the quote cache and the job registry unchanged: the quote is still cached. A retry up
  to the quote's expiry passes the check again and reaches the same provider's
  \<open>create_job\<close>; a retry after the expiry fails with Expired.
\<close>

theorem accept_quote_create_job_raises_keeps_quote:
  "accept_quote_check now g qid = Inr (q, p) \<Longrightarrow> provider_create_job p qid request = Inl e \<Longrightarrow>
     accept_quote now g qid request = (Inl e, g)
     \<and> active_quotes (snd (accept_quote now g qid request)) qid = Some q
     \<and> active_jobs (snd (accept_quote now g qid request)) = active_jobs g
     \<and> (\<forall>later. later \<le> expires_at q \<longrightarrow>
           accept_quote_check later (snd (accept_quote now g qid request)) qid = Inr (q, p))
     \<and> (\<forall>later. expires_at q < later \<longrightarrow>
           accept_quote later (snd (accept_quote now g qid request)) qid request
             = (Inl QuoteExpired, g))"
  by (auto simp: accept_defs split: option.splits if_splits)

theorem accept_quote_create_job_raises_keeps_quote_witness:
  "accept_quote_check (minutes 5) (demo_gateway refusing_provider Map.empty) ''q1''
     = Inr (demo_quote ''mock'' ''q1'', refusing_provider)
   \<and> provider_create_job refusing_provider ''q1'' demo_request = Inl (ProviderException ''refused'')
   \<and> accept_quote (minutes 5) (demo_gateway refusing_provider Map.empty) ''q1'' demo_request
     = (Inl (ProviderException ''refused''), demo_gateway refusing_provider Map.empty)
   \<and> accept_quote_check (minutes 20)
        (snd (accept_quote (minutes 5) (demo_gateway refusing_provider Map.empty) ''q1'' demo_request))
        ''q1''
     = Inr (demo_quote ''mock'' ''q1'', refusing_provider)
   \<and> accept_quote (minutes 21)
        (snd (accept_quote (minutes 5) (demo_gateway refusing_provider Map.empty) ''q1'' demo_request))
        ''q1'' demo_request
     = (Inl QuoteExpired, demo_gateway refusing_provider Map.empty)"
proof -
  have c: "accept_quote_check (minutes 5) (demo_gateway refusing_provider Map.empty) ''q1''
     = Inr (demo_quote ''mock'' ''q1'', refusing_provider)"
    by (simp add: accept_defs demo_defs refusing_provider_def)
  have r: "provider_create_job refusing_provider ''q1'' demo_request
     = Inl (ProviderException ''refused'')"
    by (simp add: scripted_provider_def refusing_provider_def)
  have e: "expires_at (demo_quote ''mock'' ''q1'') = minutes 20"
    by (simp add: demo_quote_def)
  note t = accept_quote_create_job_raises_keeps_quote [OF c r]
  from t have s: "accept_quote (minutes 5) (demo_gateway refusing_provider Map.empty) ''q1'' demo_request
     = (Inl (ProviderException ''refused''), demo_gateway refusing_provider Map.empty)"
    by blast
  from t have l: "\<And>later. later \<le> expires_at (demo_quote ''mock'' ''q1'') \<Longrightarrow>
      accept_quote_check later
        (snd (accept_quote (minutes 5) (demo_gateway refusing_provider Map.empty) ''q1'' demo_request))
        ''q1''
     = Inr (demo_quote ''mock'' ''q1'', refusing_provider)"
    by blast
  have "accept_quote_check (minutes 20)
        (snd (accept_quote (minutes 5) (demo_gateway refusing_provider Map.empty) ''q1'' demo_request))
        ''q1''
     = Inr (demo_quote ''mock'' ''q1'', refusing_provider)"
    by (rule l) (simp add: e)
  moreover have "expires_at (demo_quote ''mock'' ''q1'') < minutes 21"
    by (simp add: demo_quote_def minutes_def)
  with t have "accept_quote (minutes 21)
        (snd (accept_quote (minutes 5) (demo_gateway refusing_provider Map.empty) ''q1'' demo_request))
        ''q1'' demo_request
     = (Inl QuoteExpired, demo_gateway refusing_provider Map.empty)"
    by blast
  ultimately show ?thesis using c r s by simp
qed

text \<open>
  Claim C9. A call of \<open>accept_quote\<close> that fails before the provider's
  \<open>create_job\<close> is reached, on an unknown quote id, on a quote past its expiry or on
  a quote whose provider id is not registered, leaves the whole gateway, so the quote cache
  and the job registry, exactly as it was. An expired quote stays cached after the failed
  call: a retry at the same or a later time fails with Expired again, not with NotFound,
  and it is the expiry sweep that removes the quote.
\<close>

theorem accept_quote_early_failure_atomic:
  "(active_quotes g qid = None \<longrightarrow> accept_quote now g qid request = (Inl QuoteNotFound, g))
   \<and> (\<forall>q. active_quotes g qid = Some q \<and> now > expires_at q \<longrightarrow>
         accept_quote now g qid request = (Inl QuoteExpired, g)
         \<and> active_quotes (snd (accept_quote now g qid request)) qid = Some q
         \<and> (\<forall>later. now \<le> later \<longrightarrow>
               accept_quote later (snd (accept_quote now g qid request)) qid request
                 = (Inl QuoteExpired, g))
         \<and> active_quotes (cleanup_expired_quotes now g) qid = None)
   \<and> (\<forall>q. active_quotes g qid = Some q \<and> \<not> now > expires_at q
           \<and> map_of (providers g) (quote_provider_id q) = None \<longrightarrow>
         accept_quote now g qid request = (Inl ProviderNotAvailable, g))"
  by (auto simp: accept_quote_def accept_quote_check_def cleanup_expired_quotes_def)

theorem accept_quote_early_failure_atomic_witness:
  "active_quotes (demo_gateway creating_provider Map.empty) ''q0'' = None
   \<and> accept_quote (minutes 5) (demo_gateway creating_provider Map.empty) ''q0'' demo_request
     = (Inl QuoteNotFound, demo_gateway creating_provider Map.empty)
   \<and> active_quotes (demo_gateway creating_provider Map.empty) ''q1'' = Some (demo_quote ''mock'' ''q1'')
   \<and> minutes 30 > expires_at (demo_quote ''mock'' ''q1'')
   \<and> accept_quote (minutes 30) (demo_gateway creating_provider Map.empty) ''q1'' demo_request
     = (Inl QuoteExpired, demo_gateway creating_provider Map.empty)
   \<and> accept_quote (minutes 31)
        (snd (accept_quote (minutes 30) (demo_gateway creating_provider Map.empty) ''q1'' demo_request))
        ''q1'' demo_request
     = (Inl QuoteExpired, demo_gateway creating_provider Map.empty)
   \<and> active_quotes (cleanup_expired_quotes (minutes 30) (demo_gateway creating_provider Map.empty)) ''q1''
     = None
   \<and> map_of (providers ((demo_gateway creating_provider Map.empty)\<lparr>providers := []\<rparr>))
        (quote_provider_id (demo_quote ''mock'' ''q1'')) = None
   \<and> accept_quote (minutes 5) ((demo_gateway creating_provider Map.empty)\<lparr>providers := []\<rparr>)
        ''q1'' demo_request
     = (Inl ProviderNotAvailable, (demo_gateway creating_provider Map.empty)\<lparr>providers := []\<rparr>)"
proof -
  let ?g = "demo_gateway creating_provider Map.empty"
  have a: "active_quotes ?g ''q0'' = None"
    and b: "active_quotes ?g ''q1'' = Some (demo_quote ''mock'' ''q1'')"
    and c: "active_quotes (?g\<lparr>providers := []\<rparr>) ''q1'' = Some (demo_quote ''mock'' ''q1'')"
    by (simp_all add: demo_gateway_def)
  have d: "minutes 30 > expires_at (demo_quote ''mock'' ''q1'')"
    and e: "\<not> minutes 5 > expires_at (demo_quote ''mock'' ''q1'')"
    and f: "minutes 30 \<le> minutes 31"
    by (simp_all add: demo_quote_def minutes_def)
  note t0 = accept_quote_early_failure_atomic [of ?g "''q0''" "minutes 5" demo_request]
  note t1 = accept_quote_early_failure_atomic [of ?g "''q1''" "minutes 30" demo_request]
  note t2 = accept_quote_early_failure_atomic [of "?g\<lparr>providers := []\<rparr>" "''q1''" "minutes 5"
      demo_request]
  from t0 a have r0: "accept_quote (minutes 5) ?g ''q0'' demo_request = (Inl QuoteNotFound, ?g)"
    by blast
  from t1 b d have r1: "accept_quote (minutes 30) ?g ''q1'' demo_request = (Inl QuoteExpired, ?g)"
    and r2: "\<forall>later. minutes 30 \<le> later \<longrightarrow>
       accept_quote later (snd (accept_quote (minutes 30) ?g ''q1'' demo_request)) ''q1'' demo_request
         = (Inl QuoteExpired, ?g)"
    and r3: "active_quotes (cleanup_expired_quotes (minutes 30) ?g) ''q1'' = None"
    by blast+
  from r2 f have r4: "accept_quote (minutes 31)
       (snd (accept_quote (minutes 30) ?g ''q1'' demo_request)) ''q1'' demo_request
         = (Inl QuoteExpired, ?g)"
    by blast
  have n: "map_of (providers (?g\<lparr>providers := []\<rparr>)) (quote_provider_id (demo_quote ''mock'' ''q1'')) = None"
    by simp
  from t2 c e n have r5: "accept_quote (minutes 5) (?g\<lparr>providers := []\<rparr>) ''q1'' demo_request
     = (Inl ProviderNotAvailable, ?g\<lparr>providers := []\<rparr>)"
    by blast
  from a b d r0 r1 r3 r4 n r5 show ?thesis by blast
qed

text \<open>
  Claim C10 as stated (every previously registered job is unchanged) is false on the
  code: line 73 is a dict assignment, and a provider that answers with the id of a job
  the registry already holds replaces that job. Here the registry holds the completed job
  \<open>j1\<close> and the provider answers the accepted quote with a new job of the same id.
\<close>

theorem accept_quote_replaces_job_counterexample:
  "fst (accept_quote (minutes 5) (demo_gateway reusing_provider completed_jobs) ''q1'' demo_request)
     = Inr (demo_job ''j1'' ASSIGNED)
   \<and> active_jobs (demo_gateway reusing_provider completed_jobs) ''j1''
     = Some (demo_job ''j1'' COMPLETED)
   \<and> active_jobs (snd (accept_quote (minutes 5) (demo_gateway reusing_provider completed_jobs)
          ''q1'' demo_request)) ''j1''
     \<noteq> active_jobs (demo_gateway reusing_provider completed_jobs) ''j1''"
  by (simp add: accept_defs demo_defs reusing_provider_def completed_jobs_def)

text \<open>
  Claim C10, amended. A successful \<open>accept_quote\<close> changes exactly two things: it
  removes the accepted quote id, and no other entry, from the quote cache, and it writes
  exactly one entry of the job registry, the returned job under its provider-returned id.
  Every other cached quote and every job registered under another id is unchanged, as are
  the providers and the router; when the returned id is new to the registry, every
  previously registered job is unchanged. (A job registered under the returned id is
  replaced.)
\<close>

theorem accept_quote_success_frame:
  "accept_quote now g qid request = (Inr j, g') \<Longrightarrow>
     active_quotes g qid \<noteq> None
     \<and> active_quotes g' = (active_quotes g)(qid := None)
     \<and> active_jobs g' = (active_jobs g)(job_id j \<mapsto> j)
     \<and> providers g' = providers g \<and> router g' = router g
     \<and> (\<forall>other. other \<noteq> qid \<longrightarrow> active_quotes g' other = active_quotes g other)
     \<and> (\<forall>other. other \<noteq> job_id j \<longrightarrow> active_jobs g' other = active_jobs g other)
     \<and> (active_jobs g (job_id j) = None \<longrightarrow>
          (\<forall>jid old. active_jobs g jid = Some old \<longrightarrow> active_jobs g' jid = Some old))"
  by (auto simp: accept_defs Let_def split: sum.splits option.splits if_splits prod.splits)

theorem accept_quote_success_frame_witness:
  "accept_quote (minutes 5) (demo_gateway creating_provider completed_jobs) ''q1'' demo_request
     = (Inr (demo_job ''j_a'' ASSIGNED),
        snd (accept_quote (minutes 5) (demo_gateway creating_provider completed_jobs) ''q1'' demo_request))
   \<and> active_quotes (snd (accept_quote (minutes 5) (demo_gateway creating_provider completed_jobs)
          ''q1'' demo_request))
     = (active_quotes (demo_gateway creating_provider completed_jobs))(''q1'' := None)
   \<and> active_jobs (snd (accept_quote (minutes 5) (demo_gateway creating_provider completed_jobs)
          ''q1'' demo_request))
     = (active_jobs (demo_gateway creating_provider completed_jobs))
         (''j_a'' \<mapsto> demo_job ''j_a'' ASSIGNED)
   \<and> active_jobs (demo_gateway creating_provider completed_jobs) ''j_a'' = None
   \<and> active_jobs (demo_gateway creating_provider completed_jobs) ''j1''
     = Some (demo_job ''j1'' COMPLETED)
   \<and> active_jobs (snd (accept_quote (minutes 5) (demo_gateway creating_provider completed_jobs)
          ''q1'' demo_request)) ''j1''
     = Some (demo_job ''j1'' COMPLETED)"
proof -
  let ?g = "demo_gateway creating_provider completed_jobs"
  have a: "accept_quote (minutes 5) ?g ''q1'' demo_request
     = (Inr (demo_job ''j_a'' ASSIGNED), snd (accept_quote (minutes 5) ?g ''q1'' demo_request))"
    by (simp add: accept_defs demo_defs creating_provider_def)
  have i: "job_id (demo_job ''j_a'' ASSIGNED) = ''j_a''"
    by (simp add: demo_job_def)
  have n: "active_jobs ?g ''j_a'' = None"
    and o: "active_jobs ?g ''j1'' = Some (demo_job ''j1'' COMPLETED)"
    by (simp_all add: demo_gateway_def completed_jobs_def)
  note t = accept_quote_success_frame [OF a]
  from t have q: "active_quotes (snd (accept_quote (minutes 5) ?g ''q1'' demo_request))
     = (active_quotes ?g)(''q1'' := None)"
    by blast
  from t i have r: "active_jobs (snd (accept_quote (minutes 5) ?g ''q1'' demo_request))
     = (active_jobs ?g)(''j_a'' \<mapsto> demo_job ''j_a'' ASSIGNED)"
    by simp
  from r o have k: "active_jobs (snd (accept_quote (minutes 5) ?g ''q1'' demo_request)) ''j1''
     = Some (demo_job ''j1'' COMPLETED)"
    by simp
  from a q r n o k show ?thesis by blast
qed

section \<open>Job status\<close>

lemmas status_defs = get_job_status_def cancel_job_def job_provider_def status_of_def

text \<open>
  Claim C4 as stated (no operation moves a job out of a terminal state) is false on the
  code, which has no check of the job's status in \<open>get_job_status\<close> or
  \<open>cancel_job\<close>. Here the registry holds the completed job \<open>j1\<close>; the provider
  confirms a cancellation, and reports the job in progress when polled. \<open>cancel_job\<close>
  leaves the job cancelled and \<open>get_job_status\<close> leaves it in progress.
\<close>

theorem terminal_job_status_changes_counterexample:
  "status_of (demo_gateway cancelling_provider completed_jobs) ''j1'' = Some COMPLETED
   \<and> terminal COMPLETED
   \<and> fst (cancel_job (minutes 50) (demo_gateway cancelling_provider completed_jobs) ''j1'') = Inr True
   \<and> status_of (snd (cancel_job (minutes 50) (demo_gateway cancelling_provider completed_jobs) ''j1''))
        ''j1'' = Some CANCELLED
   \<and> status_of (snd (get_job_status (minutes 50) (demo_gateway cancelling_provider completed_jobs)
        ''j1'')) ''j1'' = Some IN_PROGRESS"
  by (simp add: status_defs terminal_def demo_defs cancelling_provider_def completed_jobs_def)

text \<open>
  Claim C4, amended. The registry mirrors the provider and has no guard on terminal
  states. For a registered job, terminal or not: \<open>get_job_status\<close> changes its status
  exactly when the job's provider is registered and reports a status other than the one
  held, and the status is then the reported one; \<open>cancel_job\<close> changes its status
  exactly when the provider confirms the cancellation and the job is not already cancelled,
  and the status is then cancelled. So a completed, cancelled or failed job keeps its
  status when the provider reports that status again, when a call raises, and when the
  provider rejects the cancellation. Neither operation changes any other job.
\<close>

theorem job_status_follows_provider:
  "active_jobs g jid = Some j \<Longrightarrow>
     (status_of (snd (get_job_status now g jid)) jid \<noteq> Some (status j)
        \<longleftrightarrow> (\<exists>p upd. job_provider g j = Some p \<and> provider_get_job_status p jid = Inr upd
                     \<and> update_status upd \<noteq> status j))
     \<and> (\<forall>p upd. job_provider g j = Some p \<and> provider_get_job_status p jid = Inr upd \<longrightarrow>
            status_of (snd (get_job_status now g jid)) jid = Some (update_status upd))
     \<and> (status_of (snd (cancel_job now g jid)) jid \<noteq> Some (status j)
        \<longleftrightarrow> (\<exists>p. job_provider g j = Some p \<and> provider_cancel_job p jid = Inr True
                 \<and> status j \<noteq> CANCELLED))
     \<and> (\<forall>p. job_provider g j = Some p \<and> provider_cancel_job p jid = Inr True \<longrightarrow>
            status_of (snd (cancel_job now g jid)) jid = Some CANCELLED)
     \<and> (\<forall>other. other \<noteq> jid \<longrightarrow>
            active_jobs (snd (get_job_status now g jid)) other = active_jobs g other
            \<and> active_jobs (snd (cancel_job now g jid)) other = active_jobs g other)"
  by (auto simp: status_defs split: option.splits sum.splits)

theorem job_status_follows_provider_witness:
  "active_jobs (demo_gateway creating_provider completed_jobs) ''j1''
     = Some (demo_job ''j1'' COMPLETED)
   \<and> terminal (status (demo_job ''j1'' COMPLETED))
   \<and> status_of (snd (get_job_status (minutes 50) (demo_gateway creating_provider completed_jobs)
        ''j1'')) ''j1'' = Some (status (demo_job ''j1'' COMPLETED))
   \<and> status_of (snd (cancel_job (minutes 50) (demo_gateway creating_provider completed_jobs)
        ''j1'')) ''j1'' = Some (status (demo_job ''j1'' COMPLETED))"
proof -
  let ?g = "demo_gateway creating_provider completed_jobs"
  let ?j = "demo_job ''j1'' COMPLETED"
  have a: "active_jobs ?g ''j1'' = Some ?j"
    by (simp add: demo_gateway_def completed_jobs_def)
  have p: "job_provider ?g ?j = Some creating_provider"
    by (simp add: job_provider_def demo_defs creating_provider_def)
  have s: "provider_get_job_status creating_provider ''j1'' = Inl (ProviderException ''unknown job'')"
    and c: "provider_cancel_job creating_provider ''j1'' = Inr False"
    by (simp_all add: creating_provider_def scripted_provider_def)
  note t = job_status_follows_provider [OF a, of "minutes 50"]
  from p s have "\<not> (\<exists>p upd. job_provider ?g ?j = Some p \<and> provider_get_job_status p ''j1'' = Inr upd
                     \<and> update_status upd \<noteq> status ?j)"
    by simp
  with t have r1: "status_of (snd (get_job_status (minutes 50) ?g ''j1'')) ''j1'' = Some (status ?j)"
    by blast
  from p c have "\<not> (\<exists>p. job_provider ?g ?j = Some p \<and> provider_cancel_job p ''j1'' = Inr True
                 \<and> status ?j \<noteq> CANCELLED)"
    by simp
  with t have r2: "status_of (snd (cancel_job (minutes 50) ?g ''j1'')) ''j1'' = Some (status ?j)"
    by blast
  have "terminal (status ?j)"
    by (simp add: terminal_def demo_job_def)
  with a r1 r2 show ?thesis by blast
qed

section \<open>Scoring weights\<close>

lemma update_weights_rejected:
  "update_weights r new_weights = (Inl e, r') \<Longrightarrow>
     r' = r \<and> e = WeightsMustSumToOne \<and> \<bar>sum_list (map snd new_weights) - 1\<bar> > 0.01"
  by (auto simp: update_weights_def Let_def split: if_splits)

lemma default_weights_sum: "sum_list (map snd default_weights) = 1"
  by (simp add: default_weights_def)

text \<open>
  Claim C2 (the effective weights always sum to 1.0 within 0.01), evaluated on the code.
  Line 265 sums the values of the argument, and line 269 merges the argument into the
  weights in effect. From the default weights the update \<open>{"cost": 1.0}\<close> passes the
  check, its one value being 1.0, and leaves the weights cost 1.0, time 0.4, reliability
  0.2, quality 0.1 in effect, whose sum is 1.7.
\<close>

theorem update_weights_partial_update_breaks_sum:
  "fst (update_weights (route_optimizer_init fleet) [(''cost'', 1)]) = Inr ()
   \<and> weights (snd (update_weights (route_optimizer_init fleet) [(''cost'', 1)]))
     = [(''cost'', 1), (''time'', 0.4), (''reliability'', 0.2), (''quality'', 0.1)]
   \<and> sum_list (map snd (weights (snd (update_weights (route_optimizer_init fleet) [(''cost'', 1)]))))
     = 1.7
   \<and> \<bar>sum_list (map snd (weights (snd (update_weights (route_optimizer_init fleet) [(''cost'', 1)]))))
        - 1\<bar> > 0.01"
  by (simp add: update_weights_def route_optimizer_init_def default_weights_def)

section \<open>Signal scores\<close>

lemma normalize_cost_score_bounds: "0.1 \<le> normalize_cost_score c \<and> normalize_cost_score c \<le> 1"
  by (auto simp: normalize_cost_score_def Let_def max_def)

lemma calculate_quality_score_bounds:
  "quote_fields_valid q \<Longrightarrow> 0 \<le> calculate_quality_score q \<and> calculate_quality_score q \<le> 1"
  by (auto simp: quote_fields_valid_def calculate_quality_score_def Let_def split: option.splits)

lemma normalize_time_score_lower: "0.05 \<le> normalize_time_score now pickup delivery requested"
proof -
  define d where "d = max 0.1 (1 - minutes_between delivery pickup / 120)"
  define ps where "ps = (case requested of
      Some r \<Rightarrow> max 0 (1 - \<bar>minutes_between pickup r\<bar> / 60)
    | None \<Rightarrow> max 0.1 (1 - minutes_between pickup now / 60))"
  have p: "0 \<le> ps"
    unfolding ps_def by (cases requested) simp_all
  have d: "0.1 \<le> d"
    unfolding d_def by simp
  have "normalize_time_score now pickup delivery requested = (ps + d) / 2"
    unfolding normalize_time_score_def Let_def ps_def d_def by (cases requested) simp_all
  with p d show ?thesis by simp
qed

text \<open>
  With a requested pickup time and a delivery that is not before the pickup, the time
  score is at most 1.
\<close>

lemma normalize_time_score_upper:
  "pickup \<le> delivery \<Longrightarrow> normalize_time_score now pickup delivery (Some requested) \<le> 1"
proof -
  assume "pickup \<le> delivery"
  then have "0 \<le> minutes_between delivery pickup"
    by (simp add: minutes_between_def)
  then have "max 0.1 (1 - minutes_between delivery pickup / 120) \<le> 1"
    by simp
  moreover have "max 0 (1 - \<bar>minutes_between pickup requested\<bar> / 60) \<le> 1"
    by simp
  ultimately show ?thesis
    unfolding normalize_time_score_def Let_def by simp
qed

text \<open>
  Claim C8 (every signal score lies in [0,1]), evaluated on the code. The cost,
  reliability and quality scores do (lemmas above, for quotes whose fields satisfy their
  pydantic constraints), and the time score is at least 0.05. It has no upper clamp: for a
  quote whose pickup time lies 30 minutes before the evaluation time and whose delivery
  time is the evaluation time, with no requested pickup time, the pickup score is 1.5,
  the duration score 0.75 and the time score 1.125.
\<close>

theorem normalize_time_score_above_one:
  "normalize_time_score (minutes 60) (minutes 30) (minutes 60) None = 1.125
   \<and> 1 < normalize_time_score (minutes 60) (minutes 30) (minutes 60) None"
  by (simp add: normalize_time_score_def minutes_between_def minutes_def)

section \<open>Urgent priority\<close>

lemma weight_default:
  "weight default_weights ''cost'' = Inr 0.3" "weight default_weights ''time'' = Inr 0.4"
  "weight default_weights ''reliability'' = Inr 0.2" "weight default_weights ''quality'' = Inr 0.1"
  by (simp_all add: weight_def default_weights_def)

lemmas score_defs = calculate_quote_score_def normalize_cost_score_def normalize_time_score_def
  calculate_quality_score_def get_priority_adjustment_def minutes_between_def minutes_def

lemmas urgent_defs = urgent_quote_def urgent_request_def urgent_worker_def demo_location_def

lemma minutes_between_plus: "minutes_between (now + minutes n) now = real_of_int n"
  by (simp add: minutes_between_def minutes_def)

lemma rank_quotes_pair:
  assumes "calculate_quote_score w now a request = Inr sa"
    and "calculate_quote_score w now b request = Inr sb" and "sb < sa"
  shows "rank_quotes w now request n [a, b] = Inr (take n [a, b])"
    and "rank_quotes w now request n [b, a] = Inr (take n [a, b])"
  using assms by (simp_all add: rank_quotes_def take_map [symmetric])

lemma urgent_scores:
  assumes v: "quote_fields_valid q"
    and p: "estimated_pickup_time q = now + minutes 8"
    and u: "priority request = URGENT" and n: "requested_pickup_time request = None"
  shows "\<exists>s8 s25. calculate_quote_score default_weights now q request = Inr s8
       \<and> calculate_quote_score default_weights now
            (q\<lparr>estimated_pickup_time := now + minutes 25\<rparr>) request = Inr s25
       \<and> s25 < s8"
proof -
  define c where "c = normalize_cost_score (estimated_cost q)"
  define ql where "ql = calculate_quality_score q"
  define r where "r = confidence_score q"
  define D where "D = minutes_between (estimated_delivery_time q) (now + minutes 25)"
  define m25 where "m25 = max 0.1 (1 - D / 120)"
  define m8 where "m8 = max 0.1 (1 - (D + 17) / 120)"
  have c: "0.1 \<le> c"
    unfolding c_def using normalize_cost_score_bounds by blast
  have ql: "0 \<le> ql"
    unfolding ql_def using v calculate_quality_score_bounds by blast
  have r: "0 \<le> r"
    using v by (simp add: r_def quote_fields_valid_def)
  have D8: "minutes_between (estimated_delivery_time q) (now + minutes 8) = D + 17"
    by (simp add: D_def minutes_between_def minutes_def field_simps)
  have q25: "calculate_quality_score (q\<lparr>estimated_pickup_time := now + minutes 25\<rparr>) = ql"
    by (simp add: ql_def calculate_quality_score_def)
  have e8: "calculate_quote_score default_weights now q request
     = Inr ((0.3 * c + 0.4 * ((13/15 + m8) / 2) + 0.2 * r + 0.1 * ql) * 1.3)"
    by (simp add: calculate_quote_score_def weight_default Let_def p u n normalize_time_score_def
        get_priority_adjustment_def minutes_between_plus D8 c_def ql_def r_def m8_def max_def)
  have e25: "calculate_quote_score default_weights now
        (q\<lparr>estimated_pickup_time := now + minutes 25\<rparr>) request
     = Inr ((0.3 * c + 0.4 * ((7/12 + m25) / 2) + 0.2 * r + 0.1 * ql) * 0.7)"
    by (simp add: calculate_quote_score_def weight_default Let_def u n normalize_time_score_def
        get_priority_adjustment_def minutes_between_plus q25 c_def r_def D_def m25_def max_def)
  have a: "m25 \<le> m8 + 17 / 120"
    unfolding m25_def m8_def by (simp add: max_def add_divide_distrib)
  have b: "0.1 \<le> m8"
    unfolding m8_def by simp
  have "(0.3 * c + 0.4 * ((7/12 + m25) / 2) + 0.2 * r + 0.1 * ql) * 0.7
      < (0.3 * c + 0.4 * ((13/15 + m8) / 2) + 0.2 * r + 0.1 * ql) * 1.3"
    using a b c ql r by argo
  with e8 e25 show ?thesis by blast
qed

text \<open>
  Claim C7 as stated (for every pair of quotes that differ only in a pickup delay of 8
  against 25 minutes, the 8-minute quote scores and ranks strictly higher under urgent
  priority) is false on the code. The request asks for a pickup 68 minutes from now; the
  25-minute quote is closer to that time and has the shorter trip, so its time score is
  0.2625 against 0.05, and on an expensive offer of low confidence with a poorly rated
  worker this outweighs the adjustment of 0.7 against 1.3: the scores are 0.1155 for the
  25-minute quote and 0.104 for the 8-minute quote, and the 25-minute quote ranks first.
\<close>

theorem urgent_pickup_ranking_counterexample:
  "quote_fields_valid (urgent_quote 8)
   \<and> urgent_quote 25 = (urgent_quote 8)\<lparr>estimated_pickup_time := minutes 25\<rparr>
   \<and> get_priority_adjustment 0 URGENT (urgent_quote 8) = 1.3
   \<and> get_priority_adjustment 0 URGENT (urgent_quote 25) = 0.7
   \<and> calculate_quote_score default_weights 0 (urgent_quote 8) (urgent_request (Some (minutes 68)))
     = Inr 0.104
   \<and> calculate_quote_score default_weights 0 (urgent_quote 25) (urgent_request (Some (minutes 68)))
     = Inr 0.1155
   \<and> rank_quotes default_weights 0 (urgent_request (Some (minutes 68))) 5
        [urgent_quote 8, urgent_quote 25]
     = Inr [urgent_quote 25, urgent_quote 8]"
proof -
  have s8: "calculate_quote_score default_weights 0 (urgent_quote 8)
      (urgent_request (Some (minutes 68))) = Inr 0.104"
    by (simp add: score_defs urgent_defs weight_default)
  have s25: "calculate_quote_score default_weights 0 (urgent_quote 25)
      (urgent_request (Some (minutes 68))) = Inr 0.1155"
    by (simp add: score_defs urgent_defs weight_default)
  have "(0.104::real) < 0.1155" by simp
  from rank_quotes_pair(2) [OF s25 s8 this, of 5]
  have "rank_quotes default_weights 0 (urgent_request (Some (minutes 68))) 5
        [urgent_quote 8, urgent_quote 25]
     = Inr [urgent_quote 25, urgent_quote 8]"
    by simp
  moreover have "quote_fields_valid (urgent_quote 8)"
    by (simp add: quote_fields_valid_def urgent_defs)
  moreover have "urgent_quote 25 = (urgent_quote 8)\<lparr>estimated_pickup_time := minutes 25\<rparr>"
    by (simp add: urgent_quote_def)
  moreover have "get_priority_adjustment 0 URGENT (urgent_quote 8) = 1.3"
    "get_priority_adjustment 0 URGENT (urgent_quote 25) = 0.7"
    by (simp_all add: get_priority_adjustment_def urgent_quote_def minutes_between_def minutes_def)
  ultimately show ?thesis using s8 s25 by blast
qed

text \<open>
  Claim C7, amended. Under urgent priority the adjustment that multiplies the weighted
  sum is 1.3 for a pickup delay of at most 10 minutes, 1.1 for a delay above 10 and at
  most 20 minutes, and 0.7 otherwise. Consequently, under the default weights and for a
  request that names no requested pickup time, of every two quotes with valid fields that
  differ only in a pickup delay of 8 against 25 minutes the 8-minute quote receives the
  strictly higher final score and is ranked first, whichever of the two came first.
\<close>

theorem urgent_priority_adjustment:
  "(minutes_between (estimated_pickup_time q) now \<le> 10 \<longrightarrow>
      get_priority_adjustment now URGENT q = 1.3)
   \<and> (10 < minutes_between (estimated_pickup_time q) now
        \<and> minutes_between (estimated_pickup_time q) now \<le> 20 \<longrightarrow>
      get_priority_adjustment now URGENT q = 1.1)
   \<and> (20 < minutes_between (estimated_pickup_time q) now \<longrightarrow>
      get_priority_adjustment now URGENT q = 0.7)
   \<and> (quote_fields_valid q \<and> estimated_pickup_time q = now + minutes 8
        \<and> priority request = URGENT \<and> requested_pickup_time request = None \<longrightarrow>
      (\<exists>s8 s25. calculate_quote_score default_weights now q request = Inr s8
         \<and> calculate_quote_score default_weights now
              (q\<lparr>estimated_pickup_time := now + minutes 25\<rparr>) request = Inr s25
         \<and> s25 < s8)
      \<and> rank_quotes default_weights now request n
           [q, q\<lparr>estimated_pickup_time := now + minutes 25\<rparr>]
         = Inr (take n [q, q\<lparr>estimated_pickup_time := now + minutes 25\<rparr>])
      \<and> rank_quotes default_weights now request n
           [q\<lparr>estimated_pickup_time := now + minutes 25\<rparr>, q]
         = Inr (take n [q, q\<lparr>estimated_pickup_time := now + minutes 25\<rparr>]))"
proof -
  have adj: "(minutes_between (estimated_pickup_time q) now \<le> 10 \<longrightarrow>
      get_priority_adjustment now URGENT q = 1.3)
   \<and> (10 < minutes_between (estimated_pickup_time q) now
        \<and> minutes_between (estimated_pickup_time q) now \<le> 20 \<longrightarrow>
      get_priority_adjustment now URGENT q = 1.1)
   \<and> (20 < minutes_between (estimated_pickup_time q) now \<longrightarrow>
      get_priority_adjustment now URGENT q = 0.7)"
    by (simp add: get_priority_adjustment_def Let_def)
  {
    assume h: "quote_fields_valid q" "estimated_pickup_time q = now + minutes 8"
      "priority request = URGENT" "requested_pickup_time request = None"
    from urgent_scores [OF h] obtain s8 s25 where
      s: "calculate_quote_score default_weights now q request = Inr s8"
        "calculate_quote_score default_weights now
              (q\<lparr>estimated_pickup_time := now + minutes 25\<rparr>) request = Inr s25"
        "s25 < s8"
      by blast
    note rank_quotes_pair [OF s, of n]
    with s have "(\<exists>s8 s25. calculate_quote_score default_weights now q request = Inr s8
         \<and> calculate_quote_score default_weights now
              (q\<lparr>estimated_pickup_time := now + minutes 25\<rparr>) request = Inr s25
         \<and> s25 < s8)
      \<and> rank_quotes default_weights now request n
           [q, q\<lparr>estimated_pickup_time := now + minutes 25\<rparr>]
         = Inr (take n [q, q\<lparr>estimated_pickup_time := now + minutes 25\<rparr>])
      \<and> rank_quotes default_weights now request n
           [q\<lparr>estimated_pickup_time := now + minutes 25\<rparr>, q]
         = Inr (take n [q, q\<lparr>estimated_pickup_time := now + minutes 25\<rparr>])"
      by blast
  }
  with adj show ?thesis by blast
qed

theorem urgent_priority_adjustment_witness:
  "get_priority_adjustment 0 URGENT (urgent_quote 8) = 1.3
   \<and> get_priority_adjustment 0 URGENT (urgent_quote 15) = 1.1
   \<and> get_priority_adjustment 0 URGENT (urgent_quote 25) = 0.7
   \<and> quote_fields_valid (urgent_quote 8)
   \<and> estimated_pickup_time (urgent_quote 8) = 0 + minutes 8
   \<and> priority (urgent_request None) = URGENT
   \<and> requested_pickup_time (urgent_request None) = None
   \<and> rank_quotes default_weights 0 (urgent_request None) 5 [urgent_quote 25, urgent_quote 8]
     = Inr [urgent_quote 8, urgent_quote 25]"
proof -
  have d8: "minutes_between (estimated_pickup_time (urgent_quote 8)) 0 \<le> 10"
    and d15: "10 < minutes_between (estimated_pickup_time (urgent_quote 15)) 0
        \<and> minutes_between (estimated_pickup_time (urgent_quote 15)) 0 \<le> 20"
    and d25: "20 < minutes_between (estimated_pickup_time (urgent_quote 25)) 0"
    by (simp_all add: urgent_quote_def minutes_between_def minutes_def)
  have h: "quote_fields_valid (urgent_quote 8)"
    "estimated_pickup_time (urgent_quote 8) = 0 + minutes 8"
    "priority (urgent_request None) = URGENT"
    "requested_pickup_time (urgent_request None) = None"
    by (simp_all add: quote_fields_valid_def urgent_defs)
  have e: "(urgent_quote 8)\<lparr>estimated_pickup_time := 0 + minutes 25\<rparr> = urgent_quote 25"
    by (simp add: urgent_quote_def)
  note t8 = urgent_priority_adjustment [where q = "urgent_quote 8" and now = 0
      and request = "urgent_request None" and n = 5]
  note t15 = urgent_priority_adjustment [where q = "urgent_quote 15" and now = 0
      and request = "urgent_request None" and n = 5]
  note t25 = urgent_priority_adjustment [where q = "urgent_quote 25" and now = 0
      and request = "urgent_request None" and n = 5]
  from t8 d8 have a8: "get_priority_adjustment 0 URGENT (urgent_quote 8) = 1.3"
    by blast
  from t15 d15 have a15: "get_priority_adjustment 0 URGENT (urgent_quote 15) = 1.1"
    by blast
  from t25 d25 have a25: "get_priority_adjustment 0 URGENT (urgent_quote 25) = 0.7"
    by blast
  from t8 h have "rank_quotes default_weights 0 (urgent_request None) 5
      [(urgent_quote 8)\<lparr>estimated_pickup_time := 0 + minutes 25\<rparr>, urgent_quote 8]
    = Inr (take 5 [urgent_quote 8, (urgent_quote 8)\<lparr>estimated_pickup_time := 0 + minutes 25\<rparr>])"
    by blast
  then have "rank_quotes default_weights 0 (urgent_request None) 5 [urgent_quote 25, urgent_quote 8]
     = Inr [urgent_quote 8, urgent_quote 25]"
    by (simp only: e) simp
  with a8 a15 a25 h show ?thesis by blast
qed

section \<open>Provider fault isolation\<close>

lemma map_filter_filter_None:
  "(\<And>x. x \<in> set xs \<Longrightarrow> \<not> P x \<Longrightarrow> f x = None) \<Longrightarrow>
     List.map_filter f (filter P xs) = List.map_filter f xs"
  by (induction xs) (auto simp: List.map_filter_simps split: option.splits)

lemma map_filter_id_map: "List.map_filter (\<lambda>x. x) (map f xs) = List.map_filter f xs"
  by (induction xs) (auto simp: List.map_filter_simps split: option.splits)

lemma map_filter_Nil: "List.map_filter f [] = []"
  by (simp add: List.map_filter_simps)

lemma set_map_filter: "set (List.map_filter f xs) = {y. \<exists>x\<in>set xs. f x = Some y}"
  by (induction xs) (auto simp: List.map_filter_simps split: option.splits)

lemma get_provider_quote_raises:
  "isl (provider_get_quote p request) \<Longrightarrow> get_provider_quote p request = None"
  by (auto simp: get_provider_quote_def split: sum.splits)

lemma get_provider_quote_Some:
  "get_provider_quote p request = Some q \<longleftrightarrow> provider_get_quote p request = Inr (Some q)"
  by (auto simp: get_provider_quote_def split: sum.splits)

lemma valid_quotes_without_failures:
  "List.map_filter (\<lambda>p. get_provider_quote p request)
     (filter (\<lambda>p. \<not> isl (provider_get_quote p request)) ps)
   = List.map_filter (\<lambda>p. get_provider_quote p request) ps"
  by (rule map_filter_filter_None) (simp add: get_provider_quote_raises)

lemma filter_suitable_providers_filter:
  "filter_suitable_providers (filter P ps) request = filter P (filter_suitable_providers ps request)"
  by (auto simp: filter_suitable_providers_def intro: filter_cong)

lemma get_optimal_quotes_without_failures:
  "get_optimal_quotes (without_quote_failures request r) now request n
   = get_optimal_quotes r now request n"
proof -
  let ?ok = "\<lambda>p. \<not> isl (provider_get_quote p request)"
  let ?s = "filter_suitable_providers (router_providers r) request"
  have v: "List.map_filter (\<lambda>p. get_provider_quote p request) (filter ?ok ?s)
           = List.map_filter (\<lambda>p. get_provider_quote p request) ?s"
    by (rule valid_quotes_without_failures)
  show ?thesis
  proof (cases "filter ?ok ?s = []")
    case True
    with v have "List.map_filter (\<lambda>p. get_provider_quote p request) ?s = []"
      by (simp add: map_filter_Nil)
    with True show ?thesis
      by (simp add: get_optimal_quotes_def without_quote_failures_def
          filter_suitable_providers_filter map_filter_id_map Let_def)
  next
    case False
    then have "?s \<noteq> []" by auto
    with False v show ?thesis
      by (simp add: get_optimal_quotes_def without_quote_failures_def
          filter_suitable_providers_filter map_filter_id_map Let_def)
  qed
qed

lemma score_quotes_fst: "score_quotes w now request qs = Inr scored \<Longrightarrow> map fst scored = qs"
  by (induction qs arbitrary: scored) (auto split: sum.splits)

lemma rank_quotes_subset: "rank_quotes w now request n qs = Inr ranked \<Longrightarrow> set ranked \<subseteq> set qs"
proof -
  assume "rank_quotes w now request n qs = Inr ranked"
  then obtain scored where s: "score_quotes w now request qs = Inr scored"
    and r: "ranked = map fst (take n (sort_key (\<lambda>x. - snd x) scored))"
    by (auto simp: rank_quotes_def split: sum.splits)
  have "set (take n (sort_key (\<lambda>x. - snd x) scored)) \<subseteq> set scored"
    using set_take_subset [of n "sort_key (\<lambda>x. - snd x) scored"] by simp
  then have "set ranked \<subseteq> fst ` set scored"
    unfolding r by auto
  also have "fst ` set scored = set qs"
    using score_quotes_fst [OF s] by (metis set_map)
  finally show ?thesis .
qed

lemma get_optimal_quotes_sources:
  "get_optimal_quotes r now request n = Inr qs \<Longrightarrow> q \<in> set qs \<Longrightarrow>
     \<exists>p\<in>set (router_providers r). provider_get_quote p request = Inr (Some q)"
proof -
  assume g: "get_optimal_quotes r now request n = Inr qs" and q: "q \<in> set qs"
  let ?s = "filter_suitable_providers (router_providers r) request"
  let ?v = "List.map_filter (\<lambda>p. get_provider_quote p request) ?s"
  from g q have "rank_quotes (weights r) now request n ?v = Inr qs"
    by (auto simp: get_optimal_quotes_def map_filter_id_map Let_def split: if_splits)
  from rank_quotes_subset [OF this] q have "q \<in> set ?v" by blast
  then obtain p where "p \<in> set ?s" and "get_provider_quote p request = Some q"
    by (auto simp: set_map_filter)
  then show ?thesis
    by (auto simp: filter_suitable_providers_def get_provider_quote_Some)
qed

lemma request_movement_without_failures:
  "fst (request_movement now rid (g\<lparr>router := without_quote_failures request (router g)\<rparr>) request)
     = fst (request_movement now rid g request)
   \<and> active_quotes (snd (request_movement now rid
          (g\<lparr>router := without_quote_failures request (router g)\<rparr>) request))
     = active_quotes (snd (request_movement now rid g request))"
  by (simp add: request_movement_def get_optimal_quotes_without_failures split: sum.splits)

lemma worker_lists_without_failures:
  "worker_lists (map f (filter (\<lambda>p. \<not> isl (f p)) ps)) = worker_lists (map f ps)"
  by (induction ps) (auto simp: worker_lists_def split: sum.splits)

lemma worker_rows_without_failures:
  "(if map f (filter (\<lambda>p. \<not> isl (f p)) xs) = [] then []
    else map row (worker_lists (map f (filter (\<lambda>p. \<not> isl (f p)) xs))))
   = (if map f xs = [] then [] else map row (worker_lists (map f xs)))"
proof (cases "filter (\<lambda>p. \<not> isl (f p)) xs = []")
  case True
  have "worker_lists (map f xs) = worker_lists (map f (filter (\<lambda>p. \<not> isl (f p)) xs))"
    by (simp only: worker_lists_without_failures)
  with True have "worker_lists (map f xs) = []"
    by (simp add: worker_lists_def)
  with True show ?thesis by simp
next
  case False
  then have "xs \<noteq> []" by auto
  with False show ?thesis
    by (simp only: worker_lists_without_failures) simp
qed

lemma snd_filter_providers:
  "map snd (filter (\<lambda>(k, p). P p) kps) = filter P (map snd kps)"
  by (induction kps) auto

lemma get_available_workers_without_failures:
  "get_available_workers (without_worker_failures loc radius_km g) loc st radius_km
   = get_available_workers g loc st radius_km"
proof -
  let ?f = "\<lambda>p. provider_get_available_workers p loc radius_km"
  let ?sup = "\<lambda>p. st \<in> set (supported_service_types p)"
  let ?ps = "map snd (providers g)"
  have c: "filter ?sup (filter (\<lambda>p. \<not> isl (?f p)) ?ps) = filter (\<lambda>p. \<not> isl (?f p)) (filter ?sup ?ps)"
    by (auto intro: filter_cong)
  have "get_available_workers (without_worker_failures loc radius_km g) loc st radius_km
     = (if map ?f (filter (\<lambda>p. \<not> isl (?f p)) (filter ?sup ?ps)) = [] then []
        else map (worker_to_row loc)
               (worker_lists (map ?f (filter (\<lambda>p. \<not> isl (?f p)) (filter ?sup ?ps)))))"
    unfolding get_available_workers_def without_worker_failures_def Let_def
    by (simp del: filter_filter add: snd_filter_providers c)
  also have "\<dots> = (if map ?f (filter ?sup ?ps) = [] then []
        else map (worker_to_row loc) (worker_lists (map ?f (filter ?sup ?ps))))"
    by (rule worker_rows_without_failures)
  also have "\<dots> = get_available_workers g loc st radius_km"
    unfolding get_available_workers_def Let_def ..
  finally show ?thesis .
qed

lemma map_of_fold_update:
  "map_of (fold (\<lambda>p d. AList.update (k p) (v p) d) ps d)
   = fold (\<lambda>p m. m(k p \<mapsto> v p)) ps (map_of d)"
  by (induction ps arbitrary: d) (simp_all add: update_conv')

lemma fold_upd_other:
  "x \<notin> k ` set ps \<Longrightarrow> fold (\<lambda>p m. m(k p \<mapsto> v p)) ps m x = m x"
  by (induction ps arbitrary: m) auto

lemma fold_upd_distinct:
  "distinct (map k ps) \<Longrightarrow> p \<in> set ps \<Longrightarrow> fold (\<lambda>p m. m(k p \<mapsto> v p)) ps m (k p) = Some (v p)"
  by (induction ps arbitrary: m) (auto simp: fold_upd_other)

lemma dom_fold_upd:
  "dom (fold (\<lambda>p m. m(k p \<mapsto> v p)) ps m) = dom m \<union> k ` set ps"
  by (induction ps arbitrary: m) auto

lemma health_entry:
  "distinct (map provider_id (router_providers r)) \<Longrightarrow> p \<in> set (router_providers r) \<Longrightarrow>
     map_of (get_provider_health_status r) (provider_id p) = Some (health_result p)"
  by (simp add: get_provider_health_status_def map_of_fold_update fold_upd_distinct)

lemma health_dom:
  "dom (map_of (get_provider_health_status r)) = provider_id ` set (router_providers r)"
  by (simp add: get_provider_health_status_def map_of_fold_update dom_fold_upd)

lemma health_result_raises: "isl (provider_health_check p) \<Longrightarrow> health_result p = False"
  by (auto simp: health_result_def split: sum.splits)

text \<open>
  Claim C5. A provider that raises on a call does not disturb the three fan-outs. The
  quote fan-out of \<open>request_movement\<close> (the ranked quotes, the response and the quotes
  cached) and \<open>get_available_workers\<close> give exactly what they give once the raising
  providers are unregistered, so the results of the other providers are complete and in
  their order, and every quote returned was offered by a registered provider that did not
  raise. The health map has an entry for the id of every registered provider and for no
  other id; with distinct provider ids, the entry of a provider is the answer of its health
  check, and \<open>False\<close> for a provider whose health check raises.
\<close>

theorem provider_fault_isolation:
  "get_optimal_quotes r now request n
     = get_optimal_quotes (without_quote_failures request r) now request n
   \<and> (\<forall>qs. get_optimal_quotes r now request n = Inr qs \<longrightarrow>
        (\<forall>q\<in>set qs. \<exists>p\<in>set (router_providers r). provider_get_quote p request = Inr (Some q)))
   \<and> fst (request_movement now rid g request)
     = fst (request_movement now rid (g\<lparr>router := without_quote_failures request (router g)\<rparr>) request)
   \<and> active_quotes (snd (request_movement now rid g request))
     = active_quotes (snd (request_movement now rid
          (g\<lparr>router := without_quote_failures request (router g)\<rparr>) request))
   \<and> get_available_workers g loc st radius_km
     = get_available_workers (without_worker_failures loc radius_km g) loc st radius_km
   \<and> dom (map_of (get_provider_health_status r)) = provider_id ` set (router_providers r)
   \<and> (distinct (map provider_id (router_providers r)) \<longrightarrow>
        (\<forall>p\<in>set (router_providers r).
           map_of (get_provider_health_status r) (provider_id p) = Some (health_result p)
           \<and> (isl (provider_health_check p) \<longrightarrow>
                map_of (get_provider_health_status r) (provider_id p) = Some False)))"
proof (intro conjI)
  show "get_optimal_quotes r now request n
     = get_optimal_quotes (without_quote_failures request r) now request n"
    by (simp only: get_optimal_quotes_without_failures)
  show "\<forall>qs. get_optimal_quotes r now request n = Inr qs \<longrightarrow>
        (\<forall>q\<in>set qs. \<exists>p\<in>set (router_providers r). provider_get_quote p request = Inr (Some q))"
    using get_optimal_quotes_sources by blast
  show "fst (request_movement now rid g request)
     = fst (request_movement now rid (g\<lparr>router := without_quote_failures request (router g)\<rparr>) request)"
    by (simp only: request_movement_without_failures)
  show "active_quotes (snd (request_movement now rid g request))
     = active_quotes (snd (request_movement now rid
          (g\<lparr>router := without_quote_failures request (router g)\<rparr>) request))"
    by (simp only: request_movement_without_failures)
  show "get_available_workers g loc st radius_km
     = get_available_workers (without_worker_failures loc radius_km g) loc st radius_km"
    by (simp only: get_available_workers_without_failures)
  show "dom (map_of (get_provider_health_status r)) = provider_id ` set (router_providers r)"
    by (rule health_dom)
  show "distinct (map provider_id (router_providers r)) \<longrightarrow>
        (\<forall>p\<in>set (router_providers r).
           map_of (get_provider_health_status r) (provider_id p) = Some (health_result p)
           \<and> (isl (provider_health_check p) \<longrightarrow>
                map_of (get_provider_health_status r) (provider_id p) = Some False))"
    using health_entry health_result_raises by metis
qed

lemma fleet_quotes:
  "get_optimal_quotes (route_optimizer_init [fleet_provider ''a'' False, fleet_provider ''c'' False])
      0 demo_request 5
   = Inr [demo_quote ''a'' ''a_q'', demo_quote ''c'' ''c_q'']"
  by (simp add: get_optimal_quotes_def route_optimizer_init_def filter_suitable_providers_def
      get_provider_quote_def List.map_filter_simps rank_quotes_def score_defs weight_default
      fleet_provider_def demo_quote_def demo_request_def demo_location_def)

lemma fleet_without_quote_failures:
  "without_quote_failures demo_request (route_optimizer_init fleet)
   = route_optimizer_init [fleet_provider ''a'' False, fleet_provider ''c'' False]"
  by (simp add: without_quote_failures_def route_optimizer_init_def fleet_def)
     (simp add: fleet_provider_def)

lemma fleet_workers:
  "get_available_workers (without_worker_failures demo_location 10 (gateway_init fleet))
      demo_location DELIVERY 10
   = [worker_to_row demo_location (fleet_worker ''a''), worker_to_row demo_location (fleet_worker ''c'')]"
  by (simp add: get_available_workers_def without_worker_failures_def gateway_init_def fleet_def
      fleet_provider_def worker_lists_def)

theorem provider_fault_isolation_witness:
  "distinct (map provider_id (router_providers (route_optimizer_init fleet)))
   \<and> fleet_provider ''a'' False \<in> set (router_providers (route_optimizer_init fleet))
   \<and> fleet_provider ''b'' True \<in> set (router_providers (route_optimizer_init fleet))
   \<and> isl (provider_health_check (fleet_provider ''b'' True))
   \<and> map_of (get_provider_health_status (route_optimizer_init fleet)) ''a'' = Some True
   \<and> map_of (get_provider_health_status (route_optimizer_init fleet)) ''b'' = Some False
   \<and> get_optimal_quotes (route_optimizer_init fleet) 0 demo_request 5
     = Inr [demo_quote ''a'' ''a_q'', demo_quote ''c'' ''c_q'']
   \<and> (\<exists>p\<in>set (router_providers (route_optimizer_init fleet)).
         provider_get_quote p demo_request = Inr (Some (demo_quote ''a'' ''a_q'')))
   \<and> get_available_workers (gateway_init fleet) demo_location DELIVERY 10
     = [worker_to_row demo_location (fleet_worker ''a''),
        worker_to_row demo_location (fleet_worker ''c'')]"
proof -
  let ?r = "route_optimizer_init fleet"
  note t = provider_fault_isolation [where r = ?r and now = 0 and request = demo_request
      and n = 5 and g = "gateway_init fleet" and loc = demo_location and st = DELIVERY
      and radius_km = 10 and rid = "''req_1''"]
  have d: "distinct (map provider_id (router_providers ?r))"
    by (simp add: route_optimizer_init_def fleet_def fleet_provider_def)
  have ma: "fleet_provider ''a'' False \<in> set (router_providers ?r)"
    and mb: "fleet_provider ''b'' True \<in> set (router_providers ?r)"
    by (simp_all add: route_optimizer_init_def fleet_def)
  have i: "isl (provider_health_check (fleet_provider ''b'' True))"
    by (simp add: fleet_provider_def)
  have ids: "provider_id (fleet_provider ''a'' False) = ''a''"
    "provider_id (fleet_provider ''b'' True) = ''b''"
    and ha: "health_result (fleet_provider ''a'' False) = True"
    by (simp_all add: fleet_provider_def health_result_def)
  from t d have h: "\<And>p. p \<in> set (router_providers ?r) \<Longrightarrow>
      map_of (get_provider_health_status ?r) (provider_id p) = Some (health_result p)
      \<and> (isl (provider_health_check p) \<longrightarrow>
           map_of (get_provider_health_status ?r) (provider_id p) = Some False)"
    by blast
  from h [OF ma] have "map_of (get_provider_health_status ?r)
      (provider_id (fleet_provider ''a'' False)) = Some (health_result (fleet_provider ''a'' False))"
    by blast
  then have ra: "map_of (get_provider_health_status ?r) ''a'' = Some True"
    by (simp only: ids ha)
  from h [OF mb] i have "map_of (get_provider_health_status ?r)
      (provider_id (fleet_provider ''b'' True)) = Some False"
    by blast
  then have rb: "map_of (get_provider_health_status ?r) ''b'' = Some False"
    by (simp only: ids)
  from t have "get_optimal_quotes ?r 0 demo_request 5
     = get_optimal_quotes (without_quote_failures demo_request ?r) 0 demo_request 5"
    by blast
  then have q: "get_optimal_quotes ?r 0 demo_request 5
     = Inr [demo_quote ''a'' ''a_q'', demo_quote ''c'' ''c_q'']"
    by (simp only: fleet_without_quote_failures fleet_quotes)
  from t have src: "\<And>qs x. get_optimal_quotes ?r 0 demo_request 5 = Inr qs \<Longrightarrow> x \<in> set qs \<Longrightarrow>
      \<exists>p\<in>set (router_providers ?r). provider_get_quote p demo_request = Inr (Some x)"
    by blast
  have s: "\<exists>p\<in>set (router_providers ?r).
      provider_get_quote p demo_request = Inr (Some (demo_quote ''a'' ''a_q''))"
    by (rule src [OF q]) simp
  from t have "get_available_workers (gateway_init fleet) demo_location DELIVERY 10
     = get_available_workers (without_worker_failures demo_location 10 (gateway_init fleet))
         demo_location DELIVERY 10"
    by blast
  then have w: "get_available_workers (gateway_init fleet) demo_location DELIVERY 10
     = [worker_to_row demo_location (fleet_worker ''a''),
        worker_to_row demo_location (fleet_worker ''c'')]"
    by (simp only: fleet_workers)
  from d ma mb i ra rb q s w show ?thesis by blast
qed

end
